theory Spec2Isabelle
  imports Main "HOL-Library.Sublist" "HOL-Library.Multiset"
begin

section \<open>IOC model (internal/core/domain/ioc.go)\<close>

text \<open>
  \<^verbatim>\<open>type IOCType string\<close> with five named constants. The type stays a string, as in
  the source: a feed may deliver any type text.
\<close>

type_synonym IOCType = string

definition IPAddress :: IOCType where "IPAddress = ''ip''"
definition DomainType :: IOCType where "DomainType = ''domain''"
definition FileHash :: IOCType where "FileHash = ''file_hash''"
definition URL :: IOCType where "URL = ''url''"
definition Package :: IOCType where "Package = ''package''"

text \<open>Instants (\<^verbatim>\<open>time.Time\<close>) are integers on one time line; only their order is used.\<close>

type_synonym time = int

record IOC =
  Value :: string
  Type :: IOCType
  Source :: string
  ThreatType :: string
  Tags :: "string list"
  Version :: string
  FirstSeen :: time
  DateIngested :: time

section \<open>String helpers of the Go standard library\<close>

text \<open>
  Go strings are byte sequences, here \<^typ>\<open>string\<close>. \<^verbatim>\<open>strings.HasPrefix(s, p)\<close>.
\<close>

definition HasPrefix :: "string \<Rightarrow> string \<Rightarrow> bool" where
  "HasPrefix s p = prefix p s"

text \<open>
  \<^verbatim>\<open>strings.FieldsFunc(s, f)\<close>: the maximal runs of characters that do not satisfy
  \<open>f\<close>, in order; empty fields are dropped. \<open>cur\<close> is the field being collected. The
  separators used in this program are ASCII, so scanning bytes and scanning runes agree.
\<close>

fun fields_from :: "(char \<Rightarrow> bool) \<Rightarrow> string \<Rightarrow> string \<Rightarrow> string list" where
  "fields_from f cur [] = (if cur = [] then [] else [cur])"
| "fields_from f cur (c # cs) =
     (if f c then (if cur = [] then fields_from f [] cs else cur # fields_from f [] cs)
      else fields_from f (cur @ [c]) cs)"

definition FieldsFunc :: "string \<Rightarrow> (char \<Rightarrow> bool) \<Rightarrow> string list" where
  "FieldsFunc s f = fields_from f [] s"

section \<open>Component extraction (internal/core/domain/ioc_extractor.go)\<close>

text \<open>
  \<^verbatim>\<open>ExtractIOCComponents(value, sourceIOC)\<close> calls two functions of the Go standard
  library, which are parameters of the model:
  \<^item> \<open>parseIP s\<close> is \<^verbatim>\<open>net.ParseIP(s) != nil\<close>;
  \<^item> \<open>urlHostname s\<close> is \<open>None\<close> when \<^verbatim>\<open>url.Parse(s)\<close> returns an error and
    \<open>Some (u.Hostname())\<close> otherwise.
\<close>

definition is_separator :: "char \<Rightarrow> bool" where
  "is_separator r = (r = CHR '':'' \<or> r = CHR ''/'' \<or> r = CHR ''?'')"

text \<open>The first block: the host of an \<^verbatim>\<open>http://\<close> or \<^verbatim>\<open>https://\<close> value.\<close>

definition url_host_components ::
  "(string \<Rightarrow> bool) \<Rightarrow> (string \<Rightarrow> string option) \<Rightarrow> string \<Rightarrow> IOC \<Rightarrow> IOC list" where
  "url_host_components parseIP urlHostname value sourceIOC =
     (if HasPrefix value ''http://'' \<or> HasPrefix value ''https://'' then
        (case urlHostname value of
           None \<Rightarrow> []
         | Some host \<Rightarrow>
             if host \<noteq> [] \<and> host \<noteq> value then
               (if parseIP host then
                  [\<lparr>Value = host, Type = IPAddress, Source = Source sourceIOC,
                    ThreatType = ThreatType sourceIOC,
                    Tags = ''extracted-from-url'' # Tags sourceIOC, Version = [],
                    FirstSeen = FirstSeen sourceIOC, DateIngested = DateIngested sourceIOC\<rparr>]
                else
                  [\<lparr>Value = host, Type = DomainType, Source = Source sourceIOC,
                    ThreatType = ThreatType sourceIOC,
                    Tags = ''extracted-from-url'' # Tags sourceIOC, Version = [],
                    FirstSeen = FirstSeen sourceIOC, DateIngested = DateIngested sourceIOC\<rparr>])
             else [])
      else [])"

text \<open>
  The loop of the second block: the first part that is an IP literal and differs from the
  whole value is turned into an IOC, and the loop breaks.
\<close>

fun first_ip_part :: "(string \<Rightarrow> bool) \<Rightarrow> string \<Rightarrow> IOC \<Rightarrow> string list \<Rightarrow> IOC list" where
  "first_ip_part parseIP value sourceIOC [] = []"
| "first_ip_part parseIP value sourceIOC (part # parts) =
     (if parseIP part \<and> part \<noteq> value then
        [\<lparr>Value = part, Type = IPAddress, Source = Source sourceIOC,
          ThreatType = ThreatType sourceIOC,
          Tags = ''extracted-from-value'' # Tags sourceIOC, Version = [],
          FirstSeen = FirstSeen sourceIOC, DateIngested = DateIngested sourceIOC\<rparr>]
      else first_ip_part parseIP value sourceIOC parts)"

definition embedded_ip_components :: "(string \<Rightarrow> bool) \<Rightarrow> string \<Rightarrow> IOC \<Rightarrow> IOC list" where
  "embedded_ip_components parseIP value sourceIOC =
     (if \<not> HasPrefix value ''http'' then
        first_ip_part parseIP value sourceIOC (FieldsFunc value is_separator)
      else [])"

definition ExtractIOCComponents ::
  "(string \<Rightarrow> bool) \<Rightarrow> (string \<Rightarrow> string option) \<Rightarrow> string \<Rightarrow> IOC \<Rightarrow> IOC list" where
  "ExtractIOCComponents parseIP urlHostname value sourceIOC =
     [sourceIOC] @ url_host_components parseIP urlHostname value sourceIOC
       @ embedded_ip_components parseIP value sourceIOC"


section \<open>More string helpers of the Go standard library\<close>

text \<open>
  \<^verbatim>\<open>strings.ToLower\<close> and \<^verbatim>\<open>strings.TrimSpace\<close> on the ASCII range: the letters
  \<open>A\<close> to \<open>Z\<close> are mapped to \<open>a\<close> to \<open>z\<close>, the six ASCII white-space characters are
  trimmed, every other byte is kept. (Go also maps and trims some characters outside
  ASCII; the lists this program compares with are ASCII.)
\<close>

definition lower_char :: "char \<Rightarrow> char" where
  "lower_char c =
     (case map_of (zip ''ABCDEFGHIJKLMNOPQRSTUVWXYZ'' ''abcdefghijklmnopqrstuvwxyz'') c of
        Some l \<Rightarrow> l
      | None \<Rightarrow> c)"

definition ToLower :: "string \<Rightarrow> string" where
  "ToLower s = map lower_char s"

definition is_space :: "char \<Rightarrow> bool" where
  "is_space c = (c \<in> set [CHR 0x09, CHR 0x0A, CHR 0x0B, CHR 0x0C, CHR 0x0D, CHR '' ''])"

definition TrimSpace :: "string \<Rightarrow> string" where
  "TrimSpace s = rev (dropWhile is_space (rev (dropWhile is_space s)))"

text \<open>\<^verbatim>\<open>strings.Contains(s, substr)\<close>: \<open>substr\<close> occurs in \<open>s\<close> as a contiguous block.\<close>

fun Contains :: "string \<Rightarrow> string \<Rightarrow> bool" where
  "Contains [] substr = (substr = [])"
| "Contains (c # cs) substr = (prefix substr (c # cs) \<or> Contains cs substr)"

text \<open>\<^verbatim>\<open>strings.Join(elems, sep)\<close>.\<close>

fun Join :: "string list \<Rightarrow> string \<Rightarrow> string" where
  "Join [] sep = []"
| "Join [x] sep = x"
| "Join (x # y # ys) sep = x @ sep @ Join (y # ys) sep"

section \<open>Triage data (internal/adapter/llm/triager.go)\<close>

text \<open>
  \<^verbatim>\<open>Priority\<close> and \<^verbatim>\<open>Confidence\<close> are Go \<^verbatim>\<open>int\<close>s. Both are clamped before any
  arithmetic is done on them, so no operation of the guardrails can overflow and
  \<^typ>\<open>int\<close> is exact.
\<close>

record TriageResult =
  Severity :: string
  Priority :: int
  Summary :: string
  Analysis :: string
  Recommended :: "string list"
  FalsePositive :: bool
  Confidence :: int

text \<open>Field names of \<^verbatim>\<open>IOCContext\<close> carry the prefix \<open>ioc\<close>, the loop variable of the source.\<close>

record IOCContext =
  ioc_Type :: string
  ioc_Value :: string
  ioc_InDatabase :: bool
  ioc_Sources :: "string list"
  ioc_Tags :: "string list"
  ioc_ThreatTypes :: "string list"
  ioc_FirstSeen :: time

record ThreatContext =
  AlertID :: string
  ThreatName :: string
  Classification :: string
  Endpoint :: string
  OSType :: string
  IOCs :: "IOCContext list"

section \<open>Guardrails (internal/adapter/llm/guardrails.go)\<close>

text \<open>
  Logging and the metrics counters (\<^verbatim>\<open>log.Printf\<close>, \<^verbatim>\<open>RecordGuardrail\<close>) do not
  influence any returned value and are left out.
\<close>

definition KnownGoodIndicators :: "string list" where
  "KnownGoodIndicators =
     [''microsoft.com'', ''windowsupdate.com'', ''update.microsoft.com'',
      ''msftconnecttest.com'', ''office.com'', ''live.com'',
      ''amazonaws.com'', ''cloudfront.net'', ''googleapis.com'', ''gstatic.com'', ''azure.com'',
      ''cloudflare.com'', ''akamai.net'', ''fastly.net'',
      ''apple.com'', ''google.com'', ''mozilla.org'', ''ubuntu.com'', ''debian.org'']"

definition HighRiskThreatTypes :: "string list" where
  "HighRiskThreatTypes =
     [''c2_server'', ''c2'', ''command_and_control'', ''malware_download'', ''ransomware'',
      ''botnet'', ''phishing'', ''cryptominer'', ''backdoor'', ''trojan'', ''rat'', ''webshell'']"

record GuardrailConfig =
  MinConfidenceForFalsePositive :: int
  RequireThreatIntelForCritical :: bool
  MaxSeverityWithoutThreatIntel :: string

definition DefaultGuardrailConfig :: GuardrailConfig where
  "DefaultGuardrailConfig =
     \<lparr>MinConfidenceForFalsePositive = 85, RequireThreatIntelForCritical = True,
      MaxSeverityWithoutThreatIntel = ''medium''\<rparr>"

definition isKnownGoodIndicator :: "string \<Rightarrow> bool" where
  "isKnownGoodIndicator v =
     (let valueLower = ToLower v in list_ex (\<lambda>good. Contains valueLower good) KnownGoodIndicators)"

definition isHighRiskThreatType :: "string \<Rightarrow> bool" where
  "isHighRiskThreatType threatType =
     (let threatTypeLower = ToLower threatType
      in list_ex (\<lambda>risk. Contains threatTypeLower risk) HighRiskThreatTypes)"

definition validSeverities :: "string list" where
  "validSeverities = [''critical'', ''high'', ''medium'', ''low'', ''info'']"

definition normalizeSeverity :: "string \<Rightarrow> string" where
  "normalizeSeverity severity =
     (let severity = ToLower (TrimSpace severity)
      in if severity \<in> set validSeverities then severity else ''medium'')"

definition normalizePriority :: "int \<Rightarrow> string \<Rightarrow> int" where
  "normalizePriority priority severity =
     (let priority = (if priority < 1 then 1 else priority);
          priority = (if priority > 5 then 5 else priority)
      in priority)"

definition normalizeConfidence :: "int \<Rightarrow> int" where
  "normalizeConfidence confidence =
     (if confidence < 0 then 0 else if confidence > 100 then 100 else confidence)"

text \<open>The Go map \<^verbatim>\<open>severityToPriority\<close>; a missing key reads as 0.\<close>

definition severityToPriority :: "string \<rightharpoonup> int" where
  "severityToPriority =
     map_of [(''critical'', 1), (''high'', 2), (''medium'', 3), (''low'', 4), (''info'', 5)]"

definition ensurePriorityMatchesSeverity :: "int \<Rightarrow> string \<Rightarrow> int" where
  "ensurePriorityMatchesSeverity priority severity =
     (let expectedPriority = (case severityToPriority severity of Some p \<Rightarrow> p | None \<Rightarrow> 0)
      in if expectedPriority = 0 then priority
         else if abs (priority - expectedPriority) > 1 then expectedPriority
         else priority)"

definition getDefaultRecommendations :: "string \<Rightarrow> string list" where
  "getDefaultRecommendations severity =
     (if severity = ''critical'' then
        [''Immediately isolate the affected endpoint'', ''Initiate incident response procedures'',
         ''Conduct forensic analysis'', ''Check for indicators of lateral movement'']
      else if severity = ''high'' then
        [''Isolate the endpoint from the network'', ''Review endpoint activity logs'',
         ''Scan for additional compromised systems'', ''Collect forensic evidence'']
      else if severity = ''medium'' then
        [''Investigate endpoint activity'', ''Monitor for suspicious behavior'',
         ''Review logs for related indicators'']
      else if severity = ''low'' then
        [''Monitor the endpoint'', ''Document findings for future reference'']
      else [''Review and document for analysis''])"

subsection \<open>The pre-filter\<close>

text \<open>
  \<^verbatim>\<open>ApplyPreLLMGuardrails\<close> returns \<^verbatim>\<open>(result, shouldSkipLLM)\<close>; the two returns with
  a result have \<^verbatim>\<open>true\<close>, the last one is \<^verbatim>\<open>(nil, false)\<close>: an option.
\<close>

definition allKnownGood :: "ThreatContext \<Rightarrow> bool" where
  "allKnownGood threat = list_all (\<lambda>ioc. isKnownGoodIndicator (ioc_Value ioc)) (IOCs threat)"

definition highRiskTypes :: "ThreatContext \<Rightarrow> string list" where
  "highRiskTypes threat =
     concat (map (\<lambda>ioc. if ioc_InDatabase ioc
                         then filter isHighRiskThreatType (ioc_ThreatTypes ioc) else [])
                 (IOCs threat))"

definition ApplyPreLLMGuardrails :: "ThreatContext \<Rightarrow> GuardrailConfig \<Rightarrow> TriageResult option" where
  "ApplyPreLLMGuardrails threat config =
     (let hasIOCs = (length (IOCs threat) > 0) in
      if hasIOCs \<and> allKnownGood threat then
        Some \<lparr>Severity = ''info'', Priority = 5,
              Summary = ''All indicators are legitimate infrastructure'',
              Analysis = ''Analysis shows all indicators belong to known legitimate services (Microsoft, Google, cloud providers, etc.). This is a false positive.'',
              Recommended = [''Mark as false positive'',
                             ''Adjust detection rules to exclude legitimate services''],
              FalsePositive = True, Confidence = 95\<rparr>
      else
        let hasHighRiskIOC = (highRiskTypes threat \<noteq> []) in
        if hasHighRiskIOC then
          Some \<lparr>Severity = ''high'', Priority = 2,
                Summary = ''Confirmed malicious activity detected in threat intelligence'',
                Analysis = ''Multiple threat intelligence sources confirm this as malicious activity: ''
                           @ Join (highRiskTypes threat) '', '',
                Recommended = [''Isolate affected endpoint immediately'',
                               ''Conduct forensic analysis'', ''Check for lateral movement'',
                               ''Scan other endpoints for similar IOCs''],
                FalsePositive = False, Confidence = 90\<rparr>
        else None)"

subsection \<open>The post-filter\<close>

text \<open>
  \<^verbatim>\<open>ApplyPostLLMGuardrails\<close> updates the result in place, block after block; each
  block of the source is one function here, in the source's order, and the post-filter is
  their composition.
\<close>

definition normalize_fields :: "TriageResult \<Rightarrow> TriageResult" where
  "normalize_fields result =
     (let result = result\<lparr>Severity := normalizeSeverity (Severity result)\<rparr>;
          result = result\<lparr>Priority := normalizePriority (Priority result) (Severity result)\<rparr>;
          result = result\<lparr>Confidence := normalizeConfidence (Confidence result)\<rparr>
      in result)"

definition iocsInDB :: "ThreatContext \<Rightarrow> nat" where
  "iocsInDB threat = length (filter ioc_InDatabase (IOCs threat))"

definition hasHighRiskTypes :: "ThreatContext \<Rightarrow> bool" where
  "hasHighRiskTypes threat =
     list_ex (\<lambda>ioc. ioc_InDatabase ioc \<and> list_ex isHighRiskThreatType (ioc_ThreatTypes ioc))
             (IOCs threat)"

text \<open>Guardrail 1: cannot mark as false positive if IOCs are in the threat database.\<close>

definition guardrail1 :: "ThreatContext \<Rightarrow> TriageResult \<Rightarrow> TriageResult" where
  "guardrail1 threat result =
     (if FalsePositive result \<and> iocsInDB threat > 0 then
        let result = result\<lparr>FalsePositive := False\<rparr>;
            result = result\<lparr>Confidence := max (Confidence result - 20) 50\<rparr>
        in if Severity result = ''info'' \<or> Severity result = ''low''
           then result\<lparr>Severity := ''medium'', Priority := 3\<rparr>
           else result
      else result)"

text \<open>Guardrail 2: high-risk threat types cannot be low severity.\<close>

definition guardrail2 :: "ThreatContext \<Rightarrow> TriageResult \<Rightarrow> TriageResult" where
  "guardrail2 threat result =
     (if hasHighRiskTypes threat \<and> (Severity result = ''info'' \<or> Severity result = ''low'') then
        result\<lparr>Severity := ''high'', Priority := 2, FalsePositive := False,
               Confidence := max (Confidence result + 10) 85\<rparr>
      else result)"

text \<open>Guardrail 3: no critical or high severity without threat intelligence.\<close>

definition guardrail3 :: "GuardrailConfig \<Rightarrow> ThreatContext \<Rightarrow> TriageResult \<Rightarrow> TriageResult" where
  "guardrail3 config threat result =
     (if RequireThreatIntelForCritical config \<and> iocsInDB threat = 0 then
        if Severity result = ''critical'' then
          result\<lparr>Severity := ''high'', Priority := 2,
                 Confidence := min (Confidence result) 75\<rparr>
        else if Severity result = ''high'' \<and> Confidence result < 80 then
          result\<lparr>Severity := ''medium'', Priority := 3,
                 Confidence := min (Confidence result) 70\<rparr>
        else result
      else result)"

text \<open>
  Guardrail 4: boost when several sources agree. \<^verbatim>\<open>uniqueSources\<close> is a Go map used as
  a set; its size is the number of distinct sources.
\<close>

definition uniqueSources :: "ThreatContext \<Rightarrow> string list" where
  "uniqueSources threat = remdups (concat (map ioc_Sources (IOCs threat)))"

definition guardrail4 :: "ThreatContext \<Rightarrow> TriageResult \<Rightarrow> TriageResult" where
  "guardrail4 threat result =
     (if iocsInDB threat > 0 then
        if length (uniqueSources threat) \<ge> 3
        then result\<lparr>Confidence := min (Confidence result + 15) 98\<rparr>
        else result
      else result)"

text \<open>Guardrail 5: a false positive requires high confidence.\<close>

definition guardrail5 :: "GuardrailConfig \<Rightarrow> TriageResult \<Rightarrow> TriageResult" where
  "guardrail5 config result =
     (if FalsePositive result \<and> Confidence result < MinConfidenceForFalsePositive config then
        result\<lparr>FalsePositive := False, Severity := ''low'', Priority := 4,
               Analysis := Analysis result
                           @ '' (Note: Marked for analyst review due to uncertainty)''\<rparr>
      else result)"

text \<open>Guardrail 6: severity and priority are aligned.\<close>

definition guardrail6 :: "TriageResult \<Rightarrow> TriageResult" where
  "guardrail6 result =
     result\<lparr>Priority := ensurePriorityMatchesSeverity (Priority result) (Severity result)\<rparr>"

text \<open>Guardrail 7: recommended actions exist for results that are not false positives.\<close>

definition guardrail7 :: "TriageResult \<Rightarrow> TriageResult" where
  "guardrail7 result =
     (if \<not> FalsePositive result \<and> length (Recommended result) = 0
      then result\<lparr>Recommended := getDefaultRecommendations (Severity result)\<rparr>
      else result)"

definition ApplyPostLLMGuardrails ::
  "TriageResult \<Rightarrow> ThreatContext \<Rightarrow> GuardrailConfig \<Rightarrow> TriageResult" where
  "ApplyPostLLMGuardrails result threat config =
     guardrail7 (guardrail6 (guardrail5 config (guardrail4 threat
       (guardrail3 config threat (guardrail2 threat (guardrail1 threat
         (normalize_fields result)))))))"

section \<open>The triage operation (internal/adapter/llm/triager.go)\<close>

text \<open>
  \<^verbatim>\<open>Triage\<close> builds a prompt from the threat context, calls the LLM and parses its
  reply. The LLM is outside the program: \<open>askLLM threat\<close> is the outcome of
  \<^verbatim>\<open>callLLM\<close> followed by \<^verbatim>\<open>parseResponse\<close>, an error or the parsed result, and
  is a parameter. \<open>enabled\<close> is the field of the triager.
\<close>

datatype triage_error = NotEnabled | CallFailed | ParseFailed

definition Triage ::
  "bool \<Rightarrow> (ThreatContext \<Rightarrow> triage_error + TriageResult) \<Rightarrow> ThreatContext
     \<Rightarrow> triage_error + TriageResult" where
  "Triage enabled askLLM threat =
     (if \<not> enabled then Inl NotEnabled
      else
        let config = DefaultGuardrailConfig in
        case ApplyPreLLMGuardrails threat config of
          Some preResult \<Rightarrow> Inr preResult
        | None \<Rightarrow>
            (case askLLM threat of
               Inl err \<Rightarrow> Inl err
             | Inr result \<Rightarrow> Inr (ApplyPostLLMGuardrails result threat config)))"


section \<open>Dotted-decimal addresses\<close>

text \<open>
  The parts examined by the second block of \<^verbatim>\<open>ExtractIOCComponents\<close> never contain
  a colon, and on text without a colon \<^verbatim>\<open>net.ParseIP\<close> accepts exactly the
  dotted-decimal IPv4 form: four decimal fields of one to three digits, each at most 255,
  none with a leading zero. \<open>ParseIPv4\<close> is that test; it instantiates \<open>parseIP\<close>
  where a concrete input is evaluated.
\<close>

definition is_digit :: "char \<Rightarrow> bool" where
  "is_digit c = (c \<in> set ''0123456789'')"

definition digit_val :: "char \<Rightarrow> nat" where
  "digit_val c = (case map_of (zip ''0123456789'' [0, 1, 2, 3, 4, 5, 6, 7, 8, 9]) c of Some n \<Rightarrow> n | None \<Rightarrow> 0)"

definition decimal :: "string \<Rightarrow> nat" where
  "decimal s = foldl (\<lambda>n c. 10 * n + digit_val c) 0 s"

fun split_dots :: "string \<Rightarrow> string \<Rightarrow> string list" where
  "split_dots cur [] = [cur]"
| "split_dots cur (c # cs) =
     (if c = CHR ''.'' then cur # split_dots [] cs else split_dots (cur @ [c]) cs)"

definition octet :: "string \<Rightarrow> bool" where
  "octet s = (s \<noteq> [] \<and> length s \<le> 3 \<and> list_all is_digit s
              \<and> (if length s > 1 then hd s \<noteq> CHR ''0'' else True) \<and> decimal s \<le> 255)"

definition ParseIPv4 :: "string \<Rightarrow> bool" where
  "ParseIPv4 s = (let fs = split_dots [] s in length fs = 4 \<and> list_all octet fs)"

text \<open>A \<open>urlHostname\<close> for values that are not URLs: \<^verbatim>\<open>url.Parse\<close> is never reached.\<close>

definition no_url :: "string \<Rightarrow> string option" where
  "no_url s = None"

section \<open>Catalog queries (the PostgreSQL repository)\<close>

text \<open>
  The repository sends SQL text to the database. The table \<^verbatim>\<open>iocs\<close> is a list of rows,
  and the rows a query yields are the meaning of its SQL text.
  \<^verbatim>\<open>ORDER BY date_ingested DESC\<close> is a stable sort on the negated key (rows that
  tie keep the table's order, one of the orders SQL allows).
\<close>

datatype repo_error = StorageError

definition newest_first :: "IOC list \<Rightarrow> IOC list" where
  "newest_first rows = sort_key (\<lambda>r. - DateIngested r) rows"

text \<open>
  \<^verbatim>\<open>SELECT ... FROM iocs WHERE value = $1 ORDER BY date_ingested DESC\<close>, for a
  database that answers. The error returns of \<^verbatim>\<open>FindAllByValue\<close> are not lost: the
  webhook handler below takes its two repository calls as parameters, and a failing call is
  a parameter that returns \<open>Inl\<close>.
\<close>

definition FindAllByValue :: "IOC list \<Rightarrow> string \<Rightarrow> repo_error + IOC list" where
  "FindAllByValue rows v = Inr (newest_first (filter (\<lambda>r. Value r = v) rows))"

text \<open>
  \<^verbatim>\<open>FindSince\<close> returns an error at three places: when \<^verbatim>\<open>db.Query\<close> fails, when
  \<^verbatim>\<open>rows.Scan\<close> fails on a row, and when \<^verbatim>\<open>rows.Err()\<close> reports a failure after
  the last row. A database is its table together with the place, if any, where the exchange
  breaks.
\<close>

datatype fault = QueryFault | ScanFault | RowsFault

record database =
  table :: "IOC list"
  fault :: "fault option"

text \<open>
  \<^verbatim>\<open>SELECT ... FROM iocs WHERE date_ingested >= $1 ORDER BY date_ingested DESC LIMIT $2\<close>
  with \<^verbatim>\<open>$2 = limit\<close>, passed on as the caller gave it. PostgreSQL rejects a negative
  \<^verbatim>\<open>LIMIT\<close>, so the query fails then. A scan can only fail when there is a row to
  scan. Each of the three failures returns \<^verbatim>\<open>nil\<close> and a wrapped error.
\<close>

definition FindSince :: "database \<Rightarrow> time \<Rightarrow> int \<Rightarrow> repo_error + IOC list" where
  "FindSince db since limit =
     (if fault db = Some QueryFault \<or> limit < 0 then Inl StorageError
      else
        let rows = take (nat limit)
                     (newest_first (filter (\<lambda>r. DateIngested r \<ge> since) (table db)))
        in if fault db = Some ScanFault \<and> rows \<noteq> [] then Inl StorageError
           else if fault db = Some RowsFault then Inl StorageError
           else Inr rows)"

section \<open>Webhook enrichment (internal/adapter/handler/rest\_handler.go)\<close>

record SentinelOneIOC =
  indicator_Type :: string
  indicator_Value :: string

record EnrichedIndicator =
  ind_Type :: string
  ind_Value :: string
  ind_InDatabase :: bool
  ind_Sources :: "string list"
  ind_Tags :: "string list"
  ind_ThreatTypes :: "string list"
  ind_FirstSeen :: time

text \<open>The zero \<^verbatim>\<open>time.Time\<close>, the value of a field that a struct literal leaves out.\<close>

definition zero_time :: time where
  "zero_time = 0"

text \<open>\<^verbatim>\<open>uniqueStrings\<close>: the first occurrence of each string, in order.\<close>

fun unique_from :: "string list \<Rightarrow> string list \<Rightarrow> string list" where
  "unique_from seen [] = []"
| "unique_from seen (s # rest) =
     (if s \<in> set seen then unique_from seen rest else s # unique_from (s # seen) rest)"

definition uniqueStrings :: "string list \<Rightarrow> string list" where
  "uniqueStrings slice = unique_from [] slice"

definition countEnriched :: "EnrichedIndicator list \<Rightarrow> nat" where
  "countEnriched indicators = length (filter ind_InDatabase indicators)"

text \<open>
  The enrichment loop of \<^verbatim>\<open>SentinelOneWebhook\<close>. The two repository calls are
  parameters and may fail: \<open>findAll v\<close> is \<^verbatim>\<open>h.repo.FindAllByValue(ctx, v)\<close> and
  \<open>findContaining v\<close> is \<^verbatim>\<open>h.repo.FindContaining(ctx, v)\<close>; a failing call of the
  repository returns no rows. \<open>enriched\<close> is \<^verbatim>\<open>enrichedIndicators\<close>, to which the
  loop appends. The last branch is reached with at least one row only, so
  \<^verbatim>\<open>iocs[0]\<close> exists there.
\<close>

fun enrich_loop ::
  "(string \<Rightarrow> repo_error + IOC list) \<Rightarrow> (string \<Rightarrow> repo_error + IOC list)
     \<Rightarrow> SentinelOneIOC list \<Rightarrow> EnrichedIndicator list \<Rightarrow> EnrichedIndicator list" where
  "enrich_loop findAll findContaining [] enriched = enriched"
| "enrich_loop findAll findContaining (indicator # rest) enriched =
     (case findAll (indicator_Value indicator) of
        Inl err \<Rightarrow> enrich_loop findAll findContaining rest enriched
      | Inr iocs \<Rightarrow>
          let iocs = (if length iocs = 0
                      then (case findContaining (indicator_Value indicator) of
                              Inl err \<Rightarrow> []
                            | Inr found \<Rightarrow> found)
                      else iocs)
          in (case iocs of
               [] \<Rightarrow> enrich_loop findAll findContaining rest
                       (enriched @ [\<lparr>ind_Type = indicator_Type indicator,
                                      ind_Value = indicator_Value indicator,
                                      ind_InDatabase = False, ind_Sources = [], ind_Tags = [],
                                      ind_ThreatTypes = [], ind_FirstSeen = zero_time\<rparr>])
             | first # others \<Rightarrow>
                 enrich_loop findAll findContaining rest
                   (enriched @ [\<lparr>ind_Type = indicator_Type indicator,
                                  ind_Value = indicator_Value indicator,
                                  ind_InDatabase = True,
                                  ind_Sources = uniqueStrings (map Source iocs),
                                  ind_Tags = uniqueStrings (concat (map Tags iocs)),
                                  ind_ThreatTypes = uniqueStrings (map ThreatType iocs),
                                  ind_FirstSeen = FirstSeen first\<rparr>])))"

definition enrichIndicators ::
  "(string \<Rightarrow> repo_error + IOC list) \<Rightarrow> (string \<Rightarrow> repo_error + IOC list)
     \<Rightarrow> SentinelOneIOC list \<Rightarrow> EnrichedIndicator list" where
  "enrichIndicators findAll findContaining indicators =
     enrich_loop findAll findContaining indicators []"

section \<open>CEF export (the exporter package)\<close>

definition backslash :: char where "backslash = CHR 0x5C"
definition newline :: char where "newline = CHR 0x0A"
definition carriage_return :: char where "carriage_return = CHR 0x0D"

text \<open>
  \<^verbatim>\<open>strings.ReplaceAll(s, old, new)\<close> for an \<open>old\<close> of one byte, which is what each of
  the five calls in \<^verbatim>\<open>escapeField\<close> passes: every occurrence is replaced.
\<close>

definition ReplaceAll :: "string \<Rightarrow> char \<Rightarrow> string \<Rightarrow> string" where
  "ReplaceAll s old new = concat (map (\<lambda>c. if c = old then new else [c]) s)"

definition escapeField :: "string \<Rightarrow> string" where
  "escapeField s =
     (let s = ReplaceAll s backslash [backslash, backslash];
          s = ReplaceAll s (CHR ''|'') [backslash, CHR ''|''];
          s = ReplaceAll s (CHR ''='') [backslash, CHR ''=''];
          s = ReplaceAll s newline [backslash, CHR ''n''];
          s = ReplaceAll s carriage_return [backslash, CHR ''r'']
      in s)"

subsection \<open>The escape rule read backwards\<close>

text \<open>
  The repository has no decoder. The three definitions below state the escape rule of the
  export format itself, to compare \<^verbatim>\<open>escapeField\<close> with: the escaped form of one
  character, the strings in which every special character is part of an escape pair, and
  the reading of escape pairs back into characters.
\<close>

definition escape_char :: "char \<Rightarrow> string" where
  "escape_char c =
     (if c = backslash then [backslash, backslash]
      else if c = CHR ''|'' then [backslash, CHR ''|'']
      else if c = CHR ''='' then [backslash, CHR ''='']
      else if c = newline then [backslash, CHR ''n'']
      else if c = carriage_return then [backslash, CHR ''r'']
      else [c])"

definition special_chars :: "char list" where
  "special_chars = [backslash, CHR ''|'', CHR ''='', newline, carriage_return]"

fun fully_escaped :: "string \<Rightarrow> bool" where
  "fully_escaped [] = True"
| "fully_escaped [c] = (c \<notin> set special_chars)"
| "fully_escaped (c # d # cs) =
     (if c = backslash
      then d \<in> set [backslash, CHR ''|'', CHR ''='', CHR ''n'', CHR ''r''] \<and> fully_escaped cs
      else c \<notin> set special_chars \<and> fully_escaped (d # cs))"

fun unescapeField :: "string \<Rightarrow> string" where
  "unescapeField [] = []"
| "unescapeField [c] = [c]"
| "unescapeField (c # d # cs) =
     (if c = backslash then
        (if d = CHR ''n'' then newline # unescapeField cs
         else if d = CHR ''r'' then carriage_return # unescapeField cs
         else d # unescapeField cs)
      else c # unescapeField (d # cs))"


section \<open>Ranges of a triage result\<close>

text \<open>
  The value ranges a triage result is documented with: a severity of the enumeration, a
  priority from 1 to 5 and a confidence from 0 to 100.
\<close>

definition in_range :: "TriageResult \<Rightarrow> bool" where
  "in_range r = (Severity r \<in> {''critical'', ''high'', ''medium'', ''low'', ''info''}
     \<and> 1 \<le> Priority r \<and> Priority r \<le> 5 \<and> 0 \<le> Confidence r \<and> Confidence r \<le> 100)"


section \<open>Properties of the component extraction\<close>

lemma first_ip_part_filter:
  "first_ip_part parseIP value sourceIOC parts =
     (case filter (\<lambda>p. parseIP p \<and> p \<noteq> value) parts of
        [] \<Rightarrow> []
      | p # others \<Rightarrow>
          [\<lparr>Value = p, Type = IPAddress, Source = Source sourceIOC,
            ThreatType = ThreatType sourceIOC,
            Tags = ''extracted-from-value'' # Tags sourceIOC, Version = [],
            FirstSeen = FirstSeen sourceIOC, DateIngested = DateIngested sourceIOC\<rparr>])"
  by (induction parts) auto

lemma first_ip_part_length: "length (first_ip_part parseIP value sourceIOC parts) \<le> 1"
  by (induction parts) auto

lemma url_host_components_length:
  "length (url_host_components parseIP urlHostname value sourceIOC) \<le> 1"
  by (simp add: url_host_components_def split: option.split)

lemma http_prefix_cases:
  "HasPrefix value ''http://'' \<or> HasPrefix value ''https://'' \<Longrightarrow> HasPrefix value ''http''"
  by (auto simp: HasPrefix_def prefix_def)

lemma extract_shape:
  assumes r_def: "r = ExtractIOCComponents parseIP urlHostname v sourceIOC"
    and u_def: "u = url_host_components parseIP urlHostname v sourceIOC"
    and e_def: "e = embedded_ip_components parseIP v sourceIOC"
  shows "(length r = 1 \<or> length r = 2) \<and> hd r = sourceIOC \<and> r = sourceIOC # u @ e
    \<and> length u \<le> 1 \<and> length e \<le> 1 \<and> (u = [] \<or> e = [])
    \<and> (u \<noteq> [] \<longrightarrow> HasPrefix v ''http://'' \<or> HasPrefix v ''https://'')
    \<and> (e \<noteq> [] \<longrightarrow> \<not> HasPrefix v ''http'')
    \<and> \<not> (\<exists>a \<in> set (tl r). \<exists>b \<in> set (tl r). Type a = IPAddress \<and> Type b = DomainType)"
proof -
  have lu: "length u \<le> 1" unfolding u_def by (rule url_host_components_length)
  have le: "length e \<le> 1"
    unfolding e_def using first_ip_part_length [of parseIP v sourceIOC]
    by (simp add: embedded_ip_components_def)
  have pu: "u \<noteq> [] \<longrightarrow> HasPrefix v ''http://'' \<or> HasPrefix v ''https://''"
    unfolding u_def by (auto simp: url_host_components_def split: if_splits)
  have pe: "e \<noteq> [] \<longrightarrow> \<not> HasPrefix v ''http''"
    unfolding e_def by (auto simp: embedded_ip_components_def split: if_splits)
  have excl: "u = [] \<or> e = []" using pu pe http_prefix_cases by blast
  have r: "r = sourceIOC # u @ e" by (simp add: r_def u_def e_def ExtractIOCComponents_def)
  have len: "length r = 1 \<or> length r = 2"
    using excl lu le r by (cases u; cases e) auto
  have "length (tl r) \<le> 1" using excl lu le r by auto
  then have one: "\<And>a b. a \<in> set (tl r) \<Longrightarrow> b \<in> set (tl r) \<Longrightarrow> a = b"
    by (cases "tl r") auto
  have nb: "\<not> (\<exists>a \<in> set (tl r). \<exists>b \<in> set (tl r). Type a = IPAddress \<and> Type b = DomainType)"
  proof
    assume "\<exists>a \<in> set (tl r). \<exists>b \<in> set (tl r). Type a = IPAddress \<and> Type b = DomainType"
    then obtain a b where "a \<in> set (tl r)" "b \<in> set (tl r)" "Type a = IPAddress" "Type b = DomainType"
      by blast
    with one have "IPAddress = DomainType" by metis
    then show False by (simp add: IPAddress_def DomainType_def)
  qed
  show ?thesis using len r lu le excl pu pe nb by simp
qed

text \<open>
  C10. \<^verbatim>\<open>ExtractIOCComponents\<close> returns one or two IOCs. The first is the source
  IOC, unchanged. The URL-host block adds something only for a value that starts with
  \<^verbatim>\<open>http://\<close> or \<^verbatim>\<open>https://\<close>, the embedded-IP block only for a value that does
  not start with \<^verbatim>\<open>http\<close>; each adds at most one IOC and they never both add one, so
  no call emits both an IP and a Domain IOC.
\<close>

theorem extract_components_one_or_two:
  "(let r = ExtractIOCComponents parseIP urlHostname v sourceIOC;
        u = url_host_components parseIP urlHostname v sourceIOC;
        e = embedded_ip_components parseIP v sourceIOC
    in (length r = 1 \<or> length r = 2) \<and> hd r = sourceIOC \<and> r = sourceIOC # u @ e
       \<and> length u \<le> 1 \<and> length e \<le> 1 \<and> (u = [] \<or> e = [])
       \<and> (u \<noteq> [] \<longrightarrow> HasPrefix v ''http://'' \<or> HasPrefix v ''https://'')
       \<and> (e \<noteq> [] \<longrightarrow> \<not> HasPrefix v ''http'')
       \<and> \<not> (\<exists>a \<in> set (tl r). \<exists>b \<in> set (tl r). Type a = IPAddress \<and> Type b = DomainType))"
  unfolding Let_def by (rule extract_shape [OF refl refl refl])


theorem extract_components_one_or_two_witness:
  "(let r = ExtractIOCComponents ParseIPv4 no_url ''198.0.2.12:8080''
              \<lparr>Value = ''198.0.2.12:8080'', Type = URL, Source = ''feed'',
               ThreatType = ''c2_server'', Tags = [''elf''], Version = [],
               FirstSeen = 10, DateIngested = 20\<rparr>
    in length r = 2 \<and> map Value r = [''198.0.2.12:8080'', ''198.0.2.12'']
       \<and> map Type r = [URL, IPAddress]
       \<and> embedded_ip_components ParseIPv4 ''198.0.2.12:8080''
              \<lparr>Value = ''198.0.2.12:8080'', Type = URL, Source = ''feed'',
               ThreatType = ''c2_server'', Tags = [''elf''], Version = [],
               FirstSeen = 10, DateIngested = 20\<rparr> \<noteq> []
       \<and> \<not> HasPrefix ''198.0.2.12:8080'' ''http'')"
  using extract_components_one_or_two [of ParseIPv4 no_url "''198.0.2.12:8080''"
              "\<lparr>Value = ''198.0.2.12:8080'', Type = URL, Source = ''feed'',
               ThreatType = ''c2_server'', Tags = [''elf''], Version = [],
               FirstSeen = 10, DateIngested = 20\<rparr>"]
  by code_simp

text \<open>
  C8, as the code has it. For a value that does not start with \<^verbatim>\<open>http\<close>, the value
  is split at \<open>:\<close>, \<open>/\<close> and \<open>?\<close>. When no part is an IP literal different from the whole
  value, only the source IOC is returned. Otherwise exactly one IP IOC is added, for the
  first such part, however many there are: its tags are \<^verbatim>\<open>extracted-from-value\<close>
  followed by the parent's tags, its version is empty, and source, threat type, first-seen
  and ingestion time are the parent's.
\<close>

theorem embedded_ip_first_literal:
  assumes "\<not> HasPrefix v ''http''"
  shows "ExtractIOCComponents parseIP urlHostname v sourceIOC =
     (case filter (\<lambda>part. parseIP part \<and> part \<noteq> v) (FieldsFunc v is_separator) of
        [] \<Rightarrow> [sourceIOC]
      | part # others \<Rightarrow>
          [sourceIOC,
           \<lparr>Value = part, Type = IPAddress, Source = Source sourceIOC,
            ThreatType = ThreatType sourceIOC,
            Tags = ''extracted-from-value'' # Tags sourceIOC, Version = [],
            FirstSeen = FirstSeen sourceIOC, DateIngested = DateIngested sourceIOC\<rparr>])"
proof -
  have "\<not> (HasPrefix v ''http://'' \<or> HasPrefix v ''https://'')"
    using assms http_prefix_cases by blast
  then have "url_host_components parseIP urlHostname v sourceIOC = []"
    by (simp add: url_host_components_def)
  then show ?thesis
    using assms
    by (simp add: ExtractIOCComponents_def embedded_ip_components_def first_ip_part_filter
        split: list.split)
qed

theorem embedded_ip_first_literal_witness:
  "\<not> HasPrefix ''10.0.0.1/x'' ''http'' \<and>
   ExtractIOCComponents ParseIPv4 no_url ''10.0.0.1/x''
     \<lparr>Value = ''10.0.0.1/x'', Type = URL, Source = ''feed'', ThreatType = ''botnet'',
      Tags = [''a''], Version = ''1'', FirstSeen = 3, DateIngested = 4\<rparr>
   = [\<lparr>Value = ''10.0.0.1/x'', Type = URL, Source = ''feed'', ThreatType = ''botnet'',
       Tags = [''a''], Version = ''1'', FirstSeen = 3, DateIngested = 4\<rparr>,
      \<lparr>Value = ''10.0.0.1'', Type = IPAddress, Source = ''feed'', ThreatType = ''botnet'',
       Tags = [''extracted-from-value'', ''a''], Version = [], FirstSeen = 3,
       DateIngested = 4\<rparr>]"
proof -
  have h: "\<not> HasPrefix ''10.0.0.1/x'' ''http''" by code_simp
  have f: "filter (\<lambda>part. ParseIPv4 part \<and> part \<noteq> ''10.0.0.1/x'')
             (FieldsFunc ''10.0.0.1/x'' is_separator) = [''10.0.0.1'']" by code_simp
  show ?thesis
    using h embedded_ip_first_literal [OF h, of ParseIPv4 no_url] f by simp
qed

text \<open>
  C8, as stated, fails: in \<^verbatim>\<open>1.2.3.4:5.6.7.8\<close> two different parts are IP literals,
  and an IP IOC is emitted for the first of them.
\<close>

theorem two_ip_tokens_counterexample:
  "\<not> HasPrefix ''1.2.3.4:5.6.7.8'' ''http'' \<and>
   filter (\<lambda>part. ParseIPv4 part \<and> part \<noteq> ''1.2.3.4:5.6.7.8'')
     (FieldsFunc ''1.2.3.4:5.6.7.8'' is_separator) = [''1.2.3.4'', ''5.6.7.8''] \<and>
   ExtractIOCComponents ParseIPv4 no_url ''1.2.3.4:5.6.7.8''
     \<lparr>Value = ''1.2.3.4:5.6.7.8'', Type = URL, Source = ''feed'', ThreatType = ''botnet'',
      Tags = [], Version = [], FirstSeen = 3, DateIngested = 4\<rparr>
   = [\<lparr>Value = ''1.2.3.4:5.6.7.8'', Type = URL, Source = ''feed'', ThreatType = ''botnet'',
       Tags = [], Version = [], FirstSeen = 3, DateIngested = 4\<rparr>,
      \<lparr>Value = ''1.2.3.4'', Type = IPAddress, Source = ''feed'', ThreatType = ''botnet'',
       Tags = [''extracted-from-value''], Version = [], FirstSeen = 3,
       DateIngested = 4\<rparr>]"
  by code_simp


section \<open>Properties of the guardrails and of the triage operation\<close>

lemma highRiskTypes_empty_iff: "highRiskTypes threat = [] \<longleftrightarrow> \<not> hasHighRiskTypes threat"
proof
  assume e: "highRiskTypes threat = []"
  show "\<not> hasHighRiskTypes threat"
  proof
    assume "hasHighRiskTypes threat"
    then obtain ioc t where i: "ioc \<in> set (IOCs threat)" "ioc_InDatabase ioc"
      and t: "t \<in> set (ioc_ThreatTypes ioc)" "isHighRiskThreatType t"
      by (auto simp: hasHighRiskTypes_def list_ex_iff)
    from t have "filter isHighRiskThreatType (ioc_ThreatTypes ioc) \<noteq> []"
      by (auto simp: filter_empty_conv)
    with i have "\<exists>xs \<in> set (map (\<lambda>ioc. if ioc_InDatabase ioc
                         then filter isHighRiskThreatType (ioc_ThreatTypes ioc) else [])
                 (IOCs threat)). xs \<noteq> []"
      by force
    with e show False unfolding highRiskTypes_def concat_eq_Nil_conv by blast
  qed
next
  assume "\<not> hasHighRiskTypes threat"
  then show "highRiskTypes threat = []"
    by (auto simp: highRiskTypes_def hasHighRiskTypes_def list_ex_iff filter_empty_conv)
qed

lemma iocsInDB_pos_iff: "iocsInDB threat > 0 \<longleftrightarrow> (\<exists>ioc \<in> set (IOCs threat). ioc_InDatabase ioc)"
  by (auto simp: iocsInDB_def filter_empty_conv)

lemma hasHighRiskTypes_in_db: "hasHighRiskTypes threat \<Longrightarrow> iocsInDB threat > 0"
  by (auto simp: iocsInDB_pos_iff hasHighRiskTypes_def list_ex_iff)

lemma normalizeSeverity_valid:
  "normalizeSeverity s \<in> {''critical'', ''high'', ''medium'', ''low'', ''info''}"
  by (simp add: normalizeSeverity_def validSeverities_def Let_def)

lemma normalize_fields_in_range: "in_range (normalize_fields r)"
  using normalizeSeverity_valid [of "Severity r"]
  by (simp add: in_range_def normalize_fields_def normalizePriority_def normalizeConfidence_def
      Let_def)

lemma guardrail1_in_range: "in_range r \<Longrightarrow> in_range (guardrail1 threat r)"
  by (auto simp: in_range_def guardrail1_def Let_def)

lemma guardrail2_skip: "\<not> hasHighRiskTypes threat \<Longrightarrow> guardrail2 threat r = r"
  by (simp add: guardrail2_def)

lemma guardrail3_in_range: "in_range r \<Longrightarrow> in_range (guardrail3 config threat r)"
  by (auto simp: in_range_def guardrail3_def)

lemma guardrail4_in_range: "in_range r \<Longrightarrow> in_range (guardrail4 threat r)"
  by (auto simp: in_range_def guardrail4_def)

lemma guardrail5_in_range: "in_range r \<Longrightarrow> in_range (guardrail5 config r)"
  by (auto simp: in_range_def guardrail5_def)

lemma guardrail5_floor:
  "FalsePositive (guardrail5 config r) \<Longrightarrow>
     MinConfidenceForFalsePositive config \<le> Confidence (guardrail5 config r)"
  by (simp add: guardrail5_def split: if_splits)

lemma guardrail6_aligned:
  assumes "in_range r"
  shows "in_range (guardrail6 r) \<and>
     (\<exists>c. severityToPriority (Severity (guardrail6 r)) = Some c \<and> \<bar>Priority (guardrail6 r) - c\<bar> \<le> 1)"
  using assms
  by (auto simp: in_range_def guardrail6_def ensurePriorityMatchesSeverity_def
      severityToPriority_def Let_def)

lemma guardrail6_other: "FalsePositive (guardrail6 r) = FalsePositive r"
  "Confidence (guardrail6 r) = Confidence r" "Severity (guardrail6 r) = Severity r"
  by (simp_all add: guardrail6_def)

lemma guardrail7_other: "FalsePositive (guardrail7 r) = FalsePositive r"
  "Confidence (guardrail7 r) = Confidence r" "Severity (guardrail7 r) = Severity r"
  "Priority (guardrail7 r) = Priority r"
  by (simp_all add: guardrail7_def)


lemma post_filter_in_range:
  assumes nh: "\<not> hasHighRiskTypes threat"
  shows "in_range (ApplyPostLLMGuardrails result threat config)
    \<and> (\<exists>c. severityToPriority (Severity (ApplyPostLLMGuardrails result threat config)) = Some c
          \<and> \<bar>Priority (ApplyPostLLMGuardrails result threat config) - c\<bar> \<le> 1)
    \<and> (FalsePositive (ApplyPostLLMGuardrails result threat config) \<longrightarrow>
          MinConfidenceForFalsePositive config
            \<le> Confidence (ApplyPostLLMGuardrails result threat config))"
proof -
  define r4 where "r4 = guardrail4 threat (guardrail3 config threat (guardrail2 threat
      (guardrail1 threat (normalize_fields result))))"
  define r5 where "r5 = guardrail5 config r4"
  define r6 where "r6 = guardrail6 r5"
  have out: "ApplyPostLLMGuardrails result threat config = guardrail7 r6"
    by (simp add: ApplyPostLLMGuardrails_def r4_def r5_def r6_def)
  have "in_range r4"
    unfolding r4_def guardrail2_skip [OF nh]
    by (intro guardrail4_in_range guardrail3_in_range guardrail1_in_range
        normalize_fields_in_range)
  then have r5: "in_range r5" unfolding r5_def by (rule guardrail5_in_range)
  have fp5: "FalsePositive r5 \<longrightarrow> MinConfidenceForFalsePositive config \<le> Confidence r5"
    unfolding r5_def using guardrail5_floor by blast
  have r6: "in_range r6 \<and> (\<exists>c. severityToPriority (Severity r6) = Some c \<and> \<bar>Priority r6 - c\<bar> \<le> 1)"
    unfolding r6_def using r5 by (rule guardrail6_aligned)
  have fp6: "FalsePositive r6 \<longrightarrow> MinConfidenceForFalsePositive config \<le> Confidence r6"
    unfolding r6_def using fp5 by (simp add: guardrail6_other)
  have "in_range (guardrail7 r6)"
    using r6 by (simp add: in_range_def guardrail7_other)
  then show ?thesis
    unfolding out using r6 fp6 by (simp add: guardrail7_other)
qed

lemma pre_filter_none: "ApplyPreLLMGuardrails threat config = None \<Longrightarrow> \<not> hasHighRiskTypes threat"
  by (simp add: ApplyPreLLMGuardrails_def Let_def highRiskTypes_empty_iff split: if_splits)

lemma pre_filter_some:
  assumes "ApplyPreLLMGuardrails threat config = Some r"
  shows "in_range r \<and> (\<exists>c. severityToPriority (Severity r) = Some c \<and> \<bar>Priority r - c\<bar> \<le> 1)
     \<and> (FalsePositive r \<longrightarrow> 85 \<le> Confidence r)"
  using assms
  by (auto simp: ApplyPreLLMGuardrails_def Let_def in_range_def severityToPriority_def
      split: if_splits)

text \<open>
  C1. Every result that \<^verbatim>\<open>Triage\<close> returns, from the pre-filter or from the
  post-filter over any parsed LLM result, has a severity of the enumeration, a priority in
  1..5, a confidence in 0..100, a priority at most one away from the canonical priority of
  its severity (critical 1, high 2, medium 3, low 4, info 5, the table
  \<^verbatim>\<open>severityToPriority\<close>), and a confidence of at least 85 when it is a false positive.
\<close>

theorem triage_result_invariants:
  assumes "Triage enabled askLLM threat = Inr r"
  shows "Severity r \<in> {''critical'', ''high'', ''medium'', ''low'', ''info''}
    \<and> 1 \<le> Priority r \<and> Priority r \<le> 5
    \<and> 0 \<le> Confidence r \<and> Confidence r \<le> 100
    \<and> (\<exists>c. severityToPriority (Severity r) = Some c \<and> \<bar>Priority r - c\<bar> \<le> 1)
    \<and> (FalsePositive r \<longrightarrow> 85 \<le> Confidence r)"
proof (cases "ApplyPreLLMGuardrails threat DefaultGuardrailConfig")
  case (Some pre)
  with assms have "r = pre" by (simp add: Triage_def split: if_splits)
  with Some pre_filter_some [of threat DefaultGuardrailConfig r] show ?thesis
    by (simp add: in_range_def)
next
  case None
  with assms obtain result where
    r: "r = ApplyPostLLMGuardrails result threat DefaultGuardrailConfig"
    by (auto simp: Triage_def split: if_splits sum.splits)
  have m: "MinConfidenceForFalsePositive DefaultGuardrailConfig = 85"
    by (simp add: DefaultGuardrailConfig_def)
  show ?thesis
    using post_filter_in_range [OF pre_filter_none [OF None], of result DefaultGuardrailConfig]
    unfolding r m by (simp add: in_range_def)
qed


theorem triage_result_invariants_witness:
  "Triage True
     (\<lambda>threat. Inr \<lparr>Severity = ''CRITICAL '', Priority = 9, Summary = ''s'', Analysis = ''a'',
                     Recommended = [], FalsePositive = True, Confidence = 150\<rparr>)
     \<lparr>AlertID = ''a-1'', ThreatName = ''t'', Classification = ''Malware'',
      Endpoint = ''host'', OSType = ''linux'',
      IOCs = [\<lparr>ioc_Type = ''DOMAIN'', ioc_Value = ''unknown-domain.xyz'',
               ioc_InDatabase = False, ioc_Sources = [], ioc_Tags = [],
               ioc_ThreatTypes = [], ioc_FirstSeen = 0\<rparr>]\<rparr>
   = Inr \<lparr>Severity = ''low'', Priority = 4, Summary = ''s'',
          Analysis = ''a (Note: Marked for analyst review due to uncertainty)'',
          Recommended = [''Monitor the endpoint'', ''Document findings for future reference''],
          FalsePositive = False, Confidence = 75\<rparr>
   \<and> \<bar>(4::int) - 4\<bar> \<le> 1"
proof -
  have h: "Triage True
     (\<lambda>threat. Inr \<lparr>Severity = ''CRITICAL '', Priority = 9, Summary = ''s'', Analysis = ''a'',
                     Recommended = [], FalsePositive = True, Confidence = 150\<rparr>)
     \<lparr>AlertID = ''a-1'', ThreatName = ''t'', Classification = ''Malware'',
      Endpoint = ''host'', OSType = ''linux'',
      IOCs = [\<lparr>ioc_Type = ''DOMAIN'', ioc_Value = ''unknown-domain.xyz'',
               ioc_InDatabase = False, ioc_Sources = [], ioc_Tags = [],
               ioc_ThreatTypes = [], ioc_FirstSeen = 0\<rparr>]\<rparr>
   = Inr \<lparr>Severity = ''low'', Priority = 4, Summary = ''s'',
          Analysis = ''a (Note: Marked for analyst review due to uncertainty)'',
          Recommended = [''Monitor the endpoint'', ''Document findings for future reference''],
          FalsePositive = False, Confidence = 75\<rparr>"
    by code_simp
  show ?thesis using h triage_result_invariants [OF h] by simp
qed

text \<open>
  The bound of 100 belongs to \<^verbatim>\<open>Triage\<close>, not to the post-filter on its own: called
  directly with an in-database high-risk indicator, which \<^verbatim>\<open>Triage\<close> never passes
  on to it, Guardrail 2 adds 10 to a confidence of 100.
\<close>

lemma post_filter_alone_above_100:
  "Confidence (ApplyPostLLMGuardrails
      \<lparr>Severity = ''low'', Priority = 4, Summary = ''s'', Analysis = ''a'',
       Recommended = [''Monitor''], FalsePositive = False, Confidence = 100\<rparr>
      \<lparr>AlertID = ''x'', ThreatName = ''t'', Classification = ''c'',
       Endpoint = ''e'', OSType = ''linux'',
       IOCs = [\<lparr>ioc_Type = ''IPV4'', ioc_Value = ''192.0.2.1'', ioc_InDatabase = True,
                ioc_Sources = [], ioc_Tags = [],
                ioc_ThreatTypes = [''c2_server''], ioc_FirstSeen = 0\<rparr>]\<rparr>
      DefaultGuardrailConfig) = 110"
  by code_simp

lemma guardrail1_clears:
  "iocsInDB threat > 0 \<Longrightarrow> \<not> FalsePositive (guardrail1 threat r)"
  by (simp add: guardrail1_def Let_def)

lemma guardrail_false_positive_mono:
  "FalsePositive (guardrail2 threat r) \<Longrightarrow> FalsePositive r"
  "FalsePositive (guardrail3 config threat r) \<Longrightarrow> FalsePositive r"
  "FalsePositive (guardrail4 threat r) \<Longrightarrow> FalsePositive r"
  "FalsePositive (guardrail5 config r) \<Longrightarrow> FalsePositive r"
  by (simp_all add: guardrail2_def guardrail3_def guardrail4_def guardrail5_def
      split: if_splits)

lemma post_filter_false_positive_not_in_database:
  assumes "FalsePositive (ApplyPostLLMGuardrails result threat config)"
  shows "\<forall>ioc \<in> set (IOCs threat). \<not> ioc_InDatabase ioc"
proof (rule ccontr)
  assume "\<not> (\<forall>ioc \<in> set (IOCs threat). \<not> ioc_InDatabase ioc)"
  then have "iocsInDB threat > 0" by (simp add: iocsInDB_pos_iff)
  then have "\<not> FalsePositive (guardrail1 threat (normalize_fields result))"
    by (rule guardrail1_clears)
  moreover from assms have "FalsePositive (guardrail1 threat (normalize_fields result))"
    unfolding ApplyPostLLMGuardrails_def guardrail7_other guardrail6_other
    by (blast dest: guardrail_false_positive_mono)
  ultimately show False by contradiction
qed

text \<open>
  C2. The post-filter never returns a false positive when an indicator is in the database
  (the lemma above). The pre-filter does: its all-benign rule looks at the indicator values
  only. Here \<^verbatim>\<open>Triage\<close> returns \<^verbatim>\<open>false_positive = true\<close> for an alert whose
  only indicator is in the database, with a high-risk threat type; the LLM is not consulted,
  so this holds whatever it would answer.
\<close>

theorem pre_filter_false_positive_in_database:
  "Triage True askLLM
     \<lparr>AlertID = ''a-2'', ThreatName = ''C2 Communication'', Classification = ''Malware'',
      Endpoint = ''SERVER-01'', OSType = ''linux'',
      IOCs = [\<lparr>ioc_Type = ''DOMAIN'', ioc_Value = ''update.microsoft.com'',
               ioc_InDatabase = True, ioc_Sources = [''urlhaus''], ioc_Tags = [],
               ioc_ThreatTypes = [''c2_server''], ioc_FirstSeen = 0\<rparr>]\<rparr>
   = Inr \<lparr>Severity = ''info'', Priority = 5,
          Summary = ''All indicators are legitimate infrastructure'',
          Analysis = ''Analysis shows all indicators belong to known legitimate services (Microsoft, Google, cloud providers, etc.). This is a false positive.'',
          Recommended = [''Mark as false positive'',
                         ''Adjust detection rules to exclude legitimate services''],
          FalsePositive = True, Confidence = 95\<rparr>"
proof -
  have "isKnownGoodIndicator ''update.microsoft.com''" by code_simp
  then show ?thesis
    by (simp add: Triage_def ApplyPreLLMGuardrails_def allKnownGood_def Let_def)
qed


lemma guardrail3_in_db: "iocsInDB threat > 0 \<Longrightarrow> guardrail3 config threat r = r"
  by (simp add: guardrail3_def)

lemma guardrail4_in_db:
  "iocsInDB threat > 0 \<Longrightarrow> guardrail4 threat r =
     (if 3 \<le> length (uniqueSources threat) then r\<lparr>Confidence := min (Confidence r + 15) 98\<rparr>
      else r)"
  by (simp add: guardrail4_def)

lemma guardrail5_not_fp: "\<not> FalsePositive r \<Longrightarrow> guardrail5 config r = r"
  by (simp add: guardrail5_def)

lemma guardrail4_fields:
  "FalsePositive (guardrail4 threat r) = FalsePositive r"
  "Severity (guardrail4 threat r) = Severity r"
  "Priority (guardrail4 threat r) = Priority r"
  by (simp_all add: guardrail4_def)

lemma normalize_fields_simps:
  "Severity (normalize_fields r) = normalizeSeverity (Severity r)"
  "Confidence (normalize_fields r) = normalizeConfidence (Confidence r)"
  "FalsePositive (normalize_fields r) = FalsePositive r"
  by (simp_all add: normalize_fields_def Let_def)

lemma post_filter_tail:
  assumes db: "iocsInDB threat > 0" and nfp: "\<not> FalsePositive r"
  shows "Severity (guardrail7 (guardrail6 (guardrail5 config (guardrail4 threat
            (guardrail3 config threat r))))) = Severity r"
    and "FalsePositive (guardrail7 (guardrail6 (guardrail5 config (guardrail4 threat
            (guardrail3 config threat r))))) = False"
    and "Confidence (guardrail7 (guardrail6 (guardrail5 config (guardrail4 threat
            (guardrail3 config threat r))))) =
         (if 3 \<le> length (uniqueSources threat) then min (Confidence r + 15) 98
          else Confidence r)"
    and "Priority (guardrail7 (guardrail6 (guardrail5 config (guardrail4 threat
            (guardrail3 config threat r))))) =
         ensurePriorityMatchesSeverity (Priority r) (Severity r)"
proof -
  have n4: "\<not> FalsePositive (guardrail4 threat r)" using nfp by (simp add: guardrail4_fields)
  have e: "guardrail5 config (guardrail4 threat (guardrail3 config threat r)) = guardrail4 threat r"
    by (simp add: guardrail3_in_db [OF db] guardrail5_not_fp [OF n4])
  show "Severity (guardrail7 (guardrail6 (guardrail5 config (guardrail4 threat
            (guardrail3 config threat r))))) = Severity r"
    unfolding e by (simp add: guardrail7_other guardrail6_other guardrail4_fields)
  show "FalsePositive (guardrail7 (guardrail6 (guardrail5 config (guardrail4 threat
            (guardrail3 config threat r))))) = False"
    unfolding e using nfp by (simp add: guardrail7_other guardrail6_other guardrail4_fields)
  show "Confidence (guardrail7 (guardrail6 (guardrail5 config (guardrail4 threat
            (guardrail3 config threat r))))) =
         (if 3 \<le> length (uniqueSources threat) then min (Confidence r + 15) 98
          else Confidence r)"
    unfolding e by (simp add: guardrail7_other guardrail6_other guardrail4_in_db [OF db])
  show "Priority (guardrail7 (guardrail6 (guardrail5 config (guardrail4 threat
            (guardrail3 config threat r))))) =
         ensurePriorityMatchesSeverity (Priority r) (Severity r)"
    unfolding e by (simp add: guardrail7_other guardrail6_def guardrail4_fields)
qed

text \<open>
  C3, as the code has it. When an indicator that is in the database has a threat type
  matching the high-risk list, and the severity is \<^verbatim>\<open>info\<close> or \<^verbatim>\<open>low\<close> when
  Guardrail 2 is reached (after normalization and the false-positive override), the
  post-filter returns severity \<^verbatim>\<open>high\<close>, priority 2, not a false positive, and a
  confidence of at least 85: for a confidence of at most 90 it is the larger of
  confidence + 10 and 85, or 98 when three or more distinct sources are present.
\<close>

theorem severity_upgrade_in_database:
  assumes hr: "\<exists>ioc \<in> set (IOCs threat). ioc_InDatabase ioc
                 \<and> (\<exists>t \<in> set (ioc_ThreatTypes ioc). isHighRiskThreatType t)"
    and sev: "Severity (guardrail1 threat (normalize_fields result)) = ''info''
              \<or> Severity (guardrail1 threat (normalize_fields result)) = ''low''"
  shows "Severity (ApplyPostLLMGuardrails result threat config) = ''high''
    \<and> Priority (ApplyPostLLMGuardrails result threat config) = 2
    \<and> \<not> FalsePositive (ApplyPostLLMGuardrails result threat config)
    \<and> 85 \<le> Confidence (ApplyPostLLMGuardrails result threat config)
    \<and> (Confidence result \<le> 90 \<longrightarrow>
         Confidence (ApplyPostLLMGuardrails result threat config) =
           (if 3 \<le> length (uniqueSources threat) then 98
            else max (normalizeConfidence (Confidence result) + 10) 85))"
proof -
  define r1 where "r1 = guardrail1 threat (normalize_fields result)"
  define r2 where "r2 = guardrail2 threat r1"
  have h: "hasHighRiskTypes threat"
    using hr by (auto simp: hasHighRiskTypes_def list_ex_iff)
  then have db: "iocsInDB threat > 0" by (rule hasHighRiskTypes_in_db)
  have c1: "Confidence r1 = normalizeConfidence (Confidence result)"
    using sev unfolding r1_def
    by (auto simp: guardrail1_def Let_def normalize_fields_simps split: if_splits)
  have r2: "r2 = r1\<lparr>Severity := ''high'', Priority := 2, FalsePositive := False,
               Confidence := max (Confidence r1 + 10) 85\<rparr>"
    using h sev unfolding r2_def r1_def by (simp add: guardrail2_def)
  have nfp: "\<not> FalsePositive r2" by (simp add: r2)
  have out: "ApplyPostLLMGuardrails result threat config =
      guardrail7 (guardrail6 (guardrail5 config (guardrail4 threat (guardrail3 config threat r2))))"
    by (simp add: ApplyPostLLMGuardrails_def r1_def r2_def)
  have p: "ensurePriorityMatchesSeverity 2 ''high'' = 2"
    by (simp add: ensurePriorityMatchesSeverity_def severityToPriority_def)
  have cb: "Confidence result \<le> 90 \<longrightarrow> normalizeConfidence (Confidence result) \<le> 90"
    by (simp add: normalizeConfidence_def)
  show ?thesis
    unfolding out post_filter_tail [OF db nfp]
    using p cb by (auto simp: r2 c1)
qed

theorem severity_upgrade_in_database_witness:
  "Severity (ApplyPostLLMGuardrails
      \<lparr>Severity = ''low'', Priority = 4, Summary = ''s'', Analysis = ''a'',
       Recommended = [''Monitor''], FalsePositive = False, Confidence = 70\<rparr>
      \<lparr>AlertID = ''test-005'', ThreatName = ''t'', Classification = ''c'',
       Endpoint = ''e'', OSType = ''linux'',
       IOCs = [\<lparr>ioc_Type = ''IPV4'', ioc_Value = ''192.0.2.1'', ioc_InDatabase = True,
                ioc_Sources = [], ioc_Tags = [],
                ioc_ThreatTypes = [''c2_server'', ''ransomware''], ioc_FirstSeen = 0\<rparr>]\<rparr>
      DefaultGuardrailConfig) = ''high''
   \<and> Confidence (ApplyPostLLMGuardrails
      \<lparr>Severity = ''low'', Priority = 4, Summary = ''s'', Analysis = ''a'',
       Recommended = [''Monitor''], FalsePositive = False, Confidence = 70\<rparr>
      \<lparr>AlertID = ''test-005'', ThreatName = ''t'', Classification = ''c'',
       Endpoint = ''e'', OSType = ''linux'',
       IOCs = [\<lparr>ioc_Type = ''IPV4'', ioc_Value = ''192.0.2.1'', ioc_InDatabase = True,
                ioc_Sources = [], ioc_Tags = [],
                ioc_ThreatTypes = [''c2_server'', ''ransomware''], ioc_FirstSeen = 0\<rparr>]\<rparr>
      DefaultGuardrailConfig) = 85"
proof -
  let ?r = "\<lparr>Severity = ''low'', Priority = 4, Summary = ''s'', Analysis = ''a'',
       Recommended = [''Monitor''], FalsePositive = False, Confidence = 70\<rparr>"
  let ?t = "\<lparr>AlertID = ''test-005'', ThreatName = ''t'', Classification = ''c'',
       Endpoint = ''e'', OSType = ''linux'',
       IOCs = [\<lparr>ioc_Type = ''IPV4'', ioc_Value = ''192.0.2.1'', ioc_InDatabase = True,
                ioc_Sources = [], ioc_Tags = [],
                ioc_ThreatTypes = [''c2_server'', ''ransomware''], ioc_FirstSeen = 0\<rparr>]\<rparr>"
  have hr: "\<exists>ioc \<in> set (IOCs ?t). ioc_InDatabase ioc
                 \<and> (\<exists>t \<in> set (ioc_ThreatTypes ioc). isHighRiskThreatType t)"
    by code_simp
  have sev: "Severity (guardrail1 ?t (normalize_fields ?r)) = ''info''
              \<or> Severity (guardrail1 ?t (normalize_fields ?r)) = ''low''"
    by code_simp
  have u: "uniqueSources ?t = []" by code_simp
  have n: "normalizeConfidence 70 = 70" by code_simp
  show ?thesis
    using severity_upgrade_in_database [OF hr sev, of DefaultGuardrailConfig] u n by simp
qed

text \<open>
  C3, as stated, fails twice. A high-risk threat type on an indicator that is not in the
  database upgrades nothing: severity stays \<^verbatim>\<open>low\<close>. And 85 is a floor, not a cap: a
  confidence of 90 becomes 100.
\<close>

theorem severity_upgrade_counterexample:
  "list_ex isHighRiskThreatType [''c2_server'']
   \<and> Severity (ApplyPostLLMGuardrails
      \<lparr>Severity = ''low'', Priority = 4, Summary = ''s'', Analysis = ''a'',
       Recommended = [''Monitor''], FalsePositive = False, Confidence = 70\<rparr>
      \<lparr>AlertID = ''x'', ThreatName = ''t'', Classification = ''c'',
       Endpoint = ''e'', OSType = ''linux'',
       IOCs = [\<lparr>ioc_Type = ''IPV4'', ioc_Value = ''192.0.2.1'', ioc_InDatabase = False,
                ioc_Sources = [], ioc_Tags = [],
                ioc_ThreatTypes = [''c2_server''], ioc_FirstSeen = 0\<rparr>]\<rparr>
      DefaultGuardrailConfig) = ''low''
   \<and> Confidence (ApplyPostLLMGuardrails
      \<lparr>Severity = ''low'', Priority = 4, Summary = ''s'', Analysis = ''a'',
       Recommended = [''Monitor''], FalsePositive = False, Confidence = 90\<rparr>
      \<lparr>AlertID = ''x'', ThreatName = ''t'', Classification = ''c'',
       Endpoint = ''e'', OSType = ''linux'',
       IOCs = [\<lparr>ioc_Type = ''IPV4'', ioc_Value = ''192.0.2.1'', ioc_InDatabase = True,
                ioc_Sources = [], ioc_Tags = [],
                ioc_ThreatTypes = [''c2_server''], ioc_FirstSeen = 0\<rparr>]\<rparr>
      DefaultGuardrailConfig) = 100"
  by code_simp

text \<open>
  C4, as the code has it. When the result is a false positive and an indicator is in the
  database, Guardrail 1 clears the flag, sets the confidence (clamped to 0..100 before) to
  the larger of confidence - 20 and 50, and raises an \<^verbatim>\<open>info\<close> or \<^verbatim>\<open>low\<close>
  severity to \<^verbatim>\<open>medium\<close> with priority 3. The post-filter returns that flag, severity
  and priority. The confidence it returns is that of Guardrail 1 when fewer than three
  distinct sources are present among the indicators, and 15 more when three or more are
  (Guardrail 4). For scenario S6 (\<^verbatim>\<open>low\<close>, false positive, confidence 70, one indicator
  in the database) this is \<^verbatim>\<open>medium\<close>, not a false positive, priority 3, and confidence
  50 with fewer than three distinct sources, 65 with three or more.
\<close>

theorem fp_override_in_database:
  assumes fp: "FalsePositive result"
    and db: "\<exists>ioc \<in> set (IOCs threat). ioc_InDatabase ioc"
  shows "\<not> FalsePositive (guardrail1 threat (normalize_fields result))
    \<and> Confidence (guardrail1 threat (normalize_fields result))
        = max (normalizeConfidence (Confidence result) - 20) 50
    \<and> (normalizeSeverity (Severity result) = ''info''
         \<or> normalizeSeverity (Severity result) = ''low'' \<longrightarrow>
          Severity (guardrail1 threat (normalize_fields result)) = ''medium''
          \<and> Priority (guardrail1 threat (normalize_fields result)) = 3)
    \<and> \<not> FalsePositive (ApplyPostLLMGuardrails result threat config)
    \<and> (normalizeSeverity (Severity result) = ''info''
         \<or> normalizeSeverity (Severity result) = ''low'' \<longrightarrow>
          Severity (ApplyPostLLMGuardrails result threat config) = ''medium''
          \<and> Priority (ApplyPostLLMGuardrails result threat config) = 3)
    \<and> Confidence (ApplyPostLLMGuardrails result threat config)
        = (if 3 \<le> length (uniqueSources threat)
           then max (normalizeConfidence (Confidence result) - 20) 50 + 15
           else max (normalizeConfidence (Confidence result) - 20) 50)"
proof -
  define r1 where "r1 = guardrail1 threat (normalize_fields result)"
  have d: "iocsInDB threat > 0" using db by (simp add: iocsInDB_pos_iff)
  have nfp: "\<not> FalsePositive r1" unfolding r1_def using d by (rule guardrail1_clears)
  have c1: "Confidence r1 = max (normalizeConfidence (Confidence result) - 20) 50"
    unfolding r1_def using fp d by (simp add: guardrail1_def Let_def normalize_fields_simps)
  have s1: "normalizeSeverity (Severity result) = ''info''
         \<or> normalizeSeverity (Severity result) = ''low'' \<longrightarrow>
          Severity r1 = ''medium'' \<and> Priority r1 = 3"
    unfolding r1_def using fp d by (auto simp: guardrail1_def Let_def normalize_fields_simps)
  have s1': "Severity r1 \<noteq> ''info'' \<and> Severity r1 \<noteq> ''low''"
    unfolding r1_def using fp d by (auto simp: guardrail1_def Let_def normalize_fields_simps)
  have r2: "guardrail2 threat r1 = r1" using s1' by (simp add: guardrail2_def)
  have out: "ApplyPostLLMGuardrails result threat config =
      guardrail7 (guardrail6 (guardrail5 config (guardrail4 threat (guardrail3 config threat r1))))"
    by (simp add: ApplyPostLLMGuardrails_def r1_def [symmetric] r2)
  have p: "ensurePriorityMatchesSeverity 3 ''medium'' = 3"
    by (simp add: ensurePriorityMatchesSeverity_def severityToPriority_def)
  have m: "min (max (normalizeConfidence (Confidence result) - 20) 50 + 15) 98
       = max (normalizeConfidence (Confidence result) - 20) 50 + 15"
    by (simp add: normalizeConfidence_def)
  show ?thesis
    unfolding out post_filter_tail [OF d nfp] r1_def [symmetric]
    using nfp c1 s1 p m by auto
qed


theorem fp_override_in_database_witness:
  "ApplyPostLLMGuardrails
      \<lparr>Severity = ''low'', Priority = 4, Summary = ''s'', Analysis = ''a'',
       Recommended = [''Monitor''], FalsePositive = True, Confidence = 70\<rparr>
      \<lparr>AlertID = ''test-004'', ThreatName = ''t'', Classification = ''c'',
       Endpoint = ''e'', OSType = ''linux'',
       IOCs = [\<lparr>ioc_Type = ''IPV4'', ioc_Value = ''192.0.2.1'', ioc_InDatabase = True,
                ioc_Sources = [''alienvault-otx''], ioc_Tags = [],
                ioc_ThreatTypes = [], ioc_FirstSeen = 0\<rparr>]\<rparr>
      DefaultGuardrailConfig
   = \<lparr>Severity = ''medium'', Priority = 3, Summary = ''s'', Analysis = ''a'',
       Recommended = [''Monitor''], FalsePositive = False, Confidence = 50\<rparr>
   \<and> max (normalizeConfidence 70 - 20) 50 = 50"
proof -
  let ?r = "\<lparr>Severity = ''low'', Priority = 4, Summary = ''s'', Analysis = ''a'',
       Recommended = [''Monitor''], FalsePositive = True, Confidence = 70\<rparr>"
  let ?t = "\<lparr>AlertID = ''test-004'', ThreatName = ''t'', Classification = ''c'',
       Endpoint = ''e'', OSType = ''linux'',
       IOCs = [\<lparr>ioc_Type = ''IPV4'', ioc_Value = ''192.0.2.1'', ioc_InDatabase = True,
                ioc_Sources = [''alienvault-otx''], ioc_Tags = [],
                ioc_ThreatTypes = [], ioc_FirstSeen = 0\<rparr>]\<rparr>"
  have fp: "FalsePositive ?r" by simp
  have db: "\<exists>ioc \<in> set (IOCs ?t). ioc_InDatabase ioc" by simp
  have e: "ApplyPostLLMGuardrails ?r ?t DefaultGuardrailConfig
     = \<lparr>Severity = ''medium'', Priority = 3, Summary = ''s'', Analysis = ''a'',
       Recommended = [''Monitor''], FalsePositive = False, Confidence = 50\<rparr>"
    by code_simp
  have n: "normalizeConfidence 70 = 70" by code_simp
  show ?thesis
    using fp_override_in_database [OF fp db, of DefaultGuardrailConfig] e n by simp
qed



text \<open>
  C4, as stated, fails: in scenario S6 with three sources on the one indicator that is in
  the database, the post-filter returns confidence 65, not 50.
\<close>

theorem fp_override_three_sources_counterexample:
  "ApplyPostLLMGuardrails
      \<lparr>Severity = ''low'', Priority = 4, Summary = ''s'', Analysis = ''a'',
       Recommended = [''Monitor''], FalsePositive = True, Confidence = 70\<rparr>
      \<lparr>AlertID = ''test-004'', ThreatName = ''t'', Classification = ''c'',
       Endpoint = ''e'', OSType = ''linux'',
       IOCs = [\<lparr>ioc_Type = ''IPV4'', ioc_Value = ''192.0.2.1'', ioc_InDatabase = True,
                ioc_Sources = [''alienvault-otx'', ''urlhaus'', ''digitalside''],
                ioc_Tags = [], ioc_ThreatTypes = [], ioc_FirstSeen = 0\<rparr>]\<rparr>
      DefaultGuardrailConfig
   = \<lparr>Severity = ''medium'', Priority = 3, Summary = ''s'', Analysis = ''a'',
       Recommended = [''Monitor''], FalsePositive = False, Confidence = 65\<rparr>"
  by code_simp

section \<open>Properties of the webhook enrichment\<close>

lemma enrich_loop_append:
  "enrich_loop findAll findContaining indicators enriched
     = enriched @ enrich_loop findAll findContaining indicators []"
proof (induction indicators arbitrary: enriched)
  case Nil
  then show ?case by simp
next
  case (Cons i rest)
  have a: "\<And>x. enrich_loop findAll findContaining rest (enriched @ [x])
      = enriched @ [x] @ enrich_loop findAll findContaining rest []"
    using Cons.IH [of "enriched @ [x]" for x] by simp
  have b: "\<And>x. enrich_loop findAll findContaining rest [x]
      = [x] @ enrich_loop findAll findContaining rest []"
    using Cons.IH [of "[x]" for x] by simp
  show ?case
  proof (cases "findAll (indicator_Value i)")
    case (Inl err)
    then show ?thesis using Cons.IH [of enriched] by simp
  next
    case (Inr iocs)
    then show ?thesis
      by (simp add: a b Let_def split: sum.split list.split)
  qed
qed

lemma enrich_lookup_error_dropped:
  assumes "findAll (indicator_Value indicator) = Inl err"
  shows "enrichIndicators findAll findContaining (indicator # rest)
     = enrichIndicators findAll findContaining rest"
  using assms by (simp add: enrichIndicators_def)

lemma enrich_pattern_error_kept:
  assumes "findAll (indicator_Value indicator) = Inr []"
    and "findContaining (indicator_Value indicator) = Inl err"
  shows "enrichIndicators findAll findContaining (indicator # rest)
     = \<lparr>ind_Type = indicator_Type indicator, ind_Value = indicator_Value indicator,
        ind_InDatabase = False, ind_Sources = [], ind_Tags = [], ind_ThreatTypes = [],
        ind_FirstSeen = zero_time\<rparr> # enrichIndicators findAll findContaining rest"
  using assms
  by (simp add: enrichIndicators_def
      enrich_loop_append [of findAll findContaining rest "[x]" for x])

lemma enrich_first_seen_first_row:
  assumes "findAll (indicator_Value indicator) = Inr (first # others)"
  shows "map ind_FirstSeen (enrichIndicators findAll findContaining [indicator])
     = [FirstSeen first]"
  using assms by (simp add: enrichIndicators_def)

text \<open>
  C6. An indicator whose exact lookup fails is skipped by the loop (the lemma
  \<open>enrich_lookup_error_dropped\<close>), while one whose pattern search fails is reported as
  not in the database (\<open>enrich_pattern_error_kept\<close>). Here the lookup of the first of
  two indicators fails: the enriched list has one entry, for the second indicator only.
\<close>

theorem lookup_error_drops_indicator:
  "enrichIndicators
     (\<lambda>v. if v = ''203.0.113.9'' then Inl StorageError else Inr [])
     (\<lambda>v. Inr [])
     [\<lparr>indicator_Type = ''IPV4'', indicator_Value = ''203.0.113.9''\<rparr>,
      \<lparr>indicator_Type = ''DOMAIN'', indicator_Value = ''example.org''\<rparr>]
   = [\<lparr>ind_Type = ''DOMAIN'', ind_Value = ''example.org'', ind_InDatabase = False,
       ind_Sources = [], ind_Tags = [], ind_ThreatTypes = [], ind_FirstSeen = zero_time\<rparr>]"
  by (simp add: enrichIndicators_def)

text \<open>
  C5. The enriched indicator takes \<^verbatim>\<open>first_seen\<close> from the first row returned, the
  row ingested last (the lemma \<open>enrich_first_seen_first_row\<close>). With two rows for
  \<^verbatim>\<open>192.0.2.5\<close>, first seen at 100 and at 200, where the second was ingested later,
  the enriched indicator has 200, not the earliest value 100.
\<close>

theorem first_seen_is_newest_row:
  "FindAllByValue
     [\<lparr>Value = ''192.0.2.5'', Type = IPAddress, Source = ''feed-b'', ThreatType = ''botnet'',
       Tags = [], Version = [], FirstSeen = 100, DateIngested = 150\<rparr>,
      \<lparr>Value = ''192.0.2.5'', Type = IPAddress, Source = ''feed-a'', ThreatType = ''botnet'',
       Tags = [], Version = [], FirstSeen = 200, DateIngested = 300\<rparr>]
     ''192.0.2.5''
   = Inr [\<lparr>Value = ''192.0.2.5'', Type = IPAddress, Source = ''feed-a'',
           ThreatType = ''botnet'', Tags = [], Version = [], FirstSeen = 200,
           DateIngested = 300\<rparr>,
          \<lparr>Value = ''192.0.2.5'', Type = IPAddress, Source = ''feed-b'',
           ThreatType = ''botnet'', Tags = [], Version = [], FirstSeen = 100,
           DateIngested = 150\<rparr>]
   \<and> enrichIndicators
     (FindAllByValue
       [\<lparr>Value = ''192.0.2.5'', Type = IPAddress, Source = ''feed-b'', ThreatType = ''botnet'',
         Tags = [], Version = [], FirstSeen = 100, DateIngested = 150\<rparr>,
        \<lparr>Value = ''192.0.2.5'', Type = IPAddress, Source = ''feed-a'', ThreatType = ''botnet'',
         Tags = [], Version = [], FirstSeen = 200, DateIngested = 300\<rparr>])
     findContaining
     [\<lparr>indicator_Type = ''IPV4'', indicator_Value = ''192.0.2.5''\<rparr>]
   = [\<lparr>ind_Type = ''IPV4'', ind_Value = ''192.0.2.5'', ind_InDatabase = True,
       ind_Sources = [''feed-a'', ''feed-b''], ind_Tags = [], ind_ThreatTypes = [''botnet''],
       ind_FirstSeen = 200\<rparr>]"
  by (simp add: FindAllByValue_def newest_first_def enrichIndicators_def uniqueStrings_def
      IPAddress_def)


section \<open>Properties of the catalog queries\<close>

lemma newest_first_sorted:
  "sorted_wrt (\<lambda>a b. DateIngested b \<le> DateIngested a) (newest_first rows)"
proof -
  have "sorted (map (\<lambda>r. - DateIngested r) (newest_first rows))"
    unfolding newest_first_def by (rule sorted_sort_key)
  then show ?thesis by (simp add: sorted_map)
qed

lemma newest_first_mset: "mset (newest_first rows) = mset rows"
  by (simp add: newest_first_def)

lemma take_newest:
  assumes s: "sorted_wrt (\<lambda>a b. DateIngested b \<le> DateIngested a) m"
  shows "\<forall>x \<in># mset m - mset (take n m). \<forall>y \<in> set (take n m). DateIngested x \<le> DateIngested y"
proof -
  have "mset (take n m) + mset (drop n m) = mset m"
    by (metis append_take_drop_id mset_append)
  then have d: "mset m - mset (take n m) = mset (drop n m)"
    by (metis add_diff_cancel_left')
  have "sorted_wrt (\<lambda>a b. DateIngested b \<le> DateIngested a) (take n m @ drop n m)"
    using s by simp
  then have "\<forall>y \<in> set (take n m). \<forall>x \<in> set (drop n m). DateIngested x \<le> DateIngested y"
    unfolding sorted_wrt_append by blast
  then show ?thesis unfolding d by auto
qed

lemma find_since_success:
  assumes "FindSince db since limit = Inr res"
  shows "0 \<le> limit \<and> res = take (nat limit)
           (newest_first (filter (\<lambda>r. since \<le> DateIngested r) (table db)))"
  using assms by (auto simp: FindSince_def Let_def split: if_splits)

text \<open>
  C7, as the code has it. The limit is used as given; there is no default. With a database
  that answers and a limit that is not negative, \<^verbatim>\<open>FindSince\<close> succeeds; with a
  negative limit, a failing query or a failing row iteration it returns the error. Whenever
  it succeeds, it returns rows of the table ingested at or after the given time, each as
  often as the table has it at most, newest first; their number is the smaller of the limit
  and the number of matching rows; every matching row left out is no newer than every row
  returned; all matching rows are returned when the limit is at least their number; and
  with limit 0 no row is returned.
\<close>

theorem find_since_rows:
  "(fault db = None \<and> 0 \<le> limit \<longrightarrow> (\<exists>res. FindSince db since limit = Inr res))
   \<and> (limit < 0 \<or> fault db = Some QueryFault \<or> fault db = Some RowsFault
         \<longrightarrow> FindSince db since limit = Inl StorageError)
   \<and> (\<forall>res. FindSince db since limit = Inr res \<longrightarrow>
         length res = min (nat limit)
                        (length (filter (\<lambda>r. since \<le> DateIngested r) (table db)))
         \<and> sorted_wrt (\<lambda>a b. DateIngested b \<le> DateIngested a) res
         \<and> mset res \<subseteq># mset (filter (\<lambda>r. since \<le> DateIngested r) (table db))
         \<and> (\<forall>x \<in># mset (filter (\<lambda>r. since \<le> DateIngested r) (table db)) - mset res.
               \<forall>y \<in> set res. DateIngested x \<le> DateIngested y)
         \<and> (length (filter (\<lambda>r. since \<le> DateIngested r) (table db)) \<le> nat limit \<longrightarrow>
               mset res = mset (filter (\<lambda>r. since \<le> DateIngested r) (table db)))
         \<and> (limit = 0 \<longrightarrow> res = []))"
proof (intro conjI allI impI)
  assume "fault db = None \<and> 0 \<le> limit"
  then show "\<exists>res. FindSince db since limit = Inr res"
    by (simp add: FindSince_def Let_def)
next
  assume "limit < 0 \<or> fault db = Some QueryFault \<or> fault db = Some RowsFault"
  then show "FindSince db since limit = Inl StorageError"
    by (auto simp: FindSince_def Let_def)
next
  fix res
  assume a: "FindSince db since limit = Inr res"
  define m where "m = newest_first (filter (\<lambda>r. since \<le> DateIngested r) (table db))"
  have r: "res = take (nat limit) m" using find_since_success [OF a] by (simp add: m_def)
  have s: "sorted_wrt (\<lambda>a b. DateIngested b \<le> DateIngested a) m"
    unfolding m_def by (rule newest_first_sorted)
  have mm: "mset m = mset (filter (\<lambda>r. since \<le> DateIngested r) (table db))"
    unfolding m_def by (rule newest_first_mset)
  have lm: "length m = length (filter (\<lambda>r. since \<le> DateIngested r) (table db))"
    using mm by (metis size_mset)
  show "length res = min (nat limit)
                        (length (filter (\<lambda>r. since \<le> DateIngested r) (table db)))"
    by (simp add: r lm min.commute)
  show "sorted_wrt (\<lambda>a b. DateIngested b \<le> DateIngested a) res"
    unfolding r using s by (rule sorted_wrt_take)
  have "mset (take (nat limit) m) + mset (drop (nat limit) m) = mset m"
    by (metis append_take_drop_id mset_append)
  then show "mset res \<subseteq># mset (filter (\<lambda>r. since \<le> DateIngested r) (table db))"
    unfolding r mm [symmetric] by (metis mset_subset_eq_add_left)
  show "\<forall>x \<in># mset (filter (\<lambda>r. since \<le> DateIngested r) (table db)) - mset res.
               \<forall>y \<in> set res. DateIngested x \<le> DateIngested y"
    unfolding r mm [symmetric] using s by (rule take_newest)
  show "mset res = mset (filter (\<lambda>r. since \<le> DateIngested r) (table db))"
    if "length (filter (\<lambda>r. since \<le> DateIngested r) (table db)) \<le> nat limit"
  proof -
    from that have "length m \<le> nat limit" unfolding lm .
    then have "take (nat limit) m = m" by simp
    then show ?thesis unfolding r using mm by simp
  qed
  show "res = []" if "limit = 0" using that by (simp add: r)
qed

theorem find_since_rows_witness:
  "FindSince
     \<lparr>table =
        [\<lparr>Value = ''a.example'', Type = DomainType, Source = ''feed-b'',
          ThreatType = ''phishing'', Tags = [], Version = [], FirstSeen = 100,
          DateIngested = 150\<rparr>,
         \<lparr>Value = ''192.0.2.5'', Type = IPAddress, Source = ''feed-a'',
          ThreatType = ''botnet'', Tags = [], Version = [], FirstSeen = 200,
          DateIngested = 300\<rparr>,
         \<lparr>Value = ''b.example'', Type = DomainType, Source = ''feed-a'',
          ThreatType = ''phishing'', Tags = [], Version = [], FirstSeen = 90,
          DateIngested = 100\<rparr>],
      fault = None\<rparr> 120 1
   = Inr [\<lparr>Value = ''192.0.2.5'', Type = IPAddress, Source = ''feed-a'',
           ThreatType = ''botnet'', Tags = [], Version = [], FirstSeen = 200,
           DateIngested = 300\<rparr>]
   \<and> (0::int) \<le> 1
   \<and> length [\<lparr>Value = ''192.0.2.5'', Type = IPAddress, Source = ''feed-a'',
           ThreatType = ''botnet'', Tags = [], Version = [], FirstSeen = 200,
           DateIngested = 300\<rparr>] = min (nat 1) 2"
proof -
  let ?db = "\<lparr>table =
        [\<lparr>Value = ''a.example'', Type = DomainType, Source = ''feed-b'',
          ThreatType = ''phishing'', Tags = [], Version = [], FirstSeen = 100,
          DateIngested = 150\<rparr>,
         \<lparr>Value = ''192.0.2.5'', Type = IPAddress, Source = ''feed-a'',
          ThreatType = ''botnet'', Tags = [], Version = [], FirstSeen = 200,
          DateIngested = 300\<rparr>,
         \<lparr>Value = ''b.example'', Type = DomainType, Source = ''feed-a'',
          ThreatType = ''phishing'', Tags = [], Version = [], FirstSeen = 90,
          DateIngested = 100\<rparr>],
      fault = None\<rparr>"
  have e: "FindSince ?db 120 1
   = Inr [\<lparr>Value = ''192.0.2.5'', Type = IPAddress, Source = ''feed-a'',
           ThreatType = ''botnet'', Tags = [], Version = [], FirstSeen = 200,
           DateIngested = 300\<rparr>]"
    by (simp add: FindSince_def newest_first_def)
  show ?thesis
    using e find_since_rows [of ?db 1 120] by simp
qed

text \<open>
  C7, as stated, fails: the database answers and a row matches, yet with limit 0 the result
  is empty.
\<close>

theorem find_since_zero_limit_counterexample:
  "fault \<lparr>table =
        [\<lparr>Value = ''192.0.2.5'', Type = IPAddress, Source = ''feed-a'',
          ThreatType = ''botnet'', Tags = [], Version = [], FirstSeen = 200,
          DateIngested = 300\<rparr>], fault = None\<rparr> = None
   \<and> filter (\<lambda>r. 250 \<le> DateIngested r)
        (table \<lparr>table =
        [\<lparr>Value = ''192.0.2.5'', Type = IPAddress, Source = ''feed-a'',
          ThreatType = ''botnet'', Tags = [], Version = [], FirstSeen = 200,
          DateIngested = 300\<rparr>], fault = None\<rparr>) \<noteq> []
   \<and> FindSince
     \<lparr>table =
        [\<lparr>Value = ''192.0.2.5'', Type = IPAddress, Source = ''feed-a'',
          ThreatType = ''botnet'', Tags = [], Version = [], FirstSeen = 200,
          DateIngested = 300\<rparr>], fault = None\<rparr> 250 0 = Inr []"
  by (simp add: FindSince_def)


section \<open>Properties of the CEF escaping\<close>

lemma ReplaceAll_append:
  "ReplaceAll (a @ b) old new = ReplaceAll a old new @ ReplaceAll b old new"
  by (simp add: ReplaceAll_def)

lemma ReplaceAll_concat_map:
  "ReplaceAll (concat (map f s)) old new = concat (map (\<lambda>c. ReplaceAll (f c) old new) s)"
  by (induction s) (simp_all add: ReplaceAll_append, simp add: ReplaceAll_def)

lemma escape_one: "escapeField [c] = escape_char c"
  by (simp add: escapeField_def escape_char_def ReplaceAll_def backslash_def newline_def
      carriage_return_def)

lemma escapeField_chars: "escapeField s = concat (map escape_char s)"
proof -
  have "escapeField s = escapeField (concat (map (\<lambda>c. [c]) s))" by simp
  also have "\<dots> = concat (map (\<lambda>c. escapeField [c]) s)"
    unfolding escapeField_def Let_def ReplaceAll_concat_map ..
  finally show ?thesis by (simp add: escape_one)
qed

lemma fully_escaped_step: "fully_escaped (escape_char c @ t) = fully_escaped t"
  by (cases t)
    (auto simp: escape_char_def special_chars_def backslash_def newline_def carriage_return_def)

lemma unescape_step: "unescapeField (escape_char c @ t) = c # unescapeField t"
  by (cases t)
    (auto simp: escape_char_def backslash_def newline_def carriage_return_def)

text \<open>
  C9. \<^verbatim>\<open>escapeField\<close> replaces each backslash, \<open>|\<close>, \<open>=\<close>, newline and carriage
  return by its two-character escape and leaves every other character as it is (the five
  passes, backslash first, amount to one pass with \<open>escape_char\<close>); in its output every
  special character is part of an escape pair; and reading the escape pairs back returns
  the input: \<open>unescapeField\<close> is a left inverse, so the escaping loses nothing.
\<close>

theorem escape_field_lossless:
  "escapeField s = concat (map escape_char s)
   \<and> fully_escaped (escapeField s)
   \<and> unescapeField (escapeField s) = s"
proof -
  have "fully_escaped (concat (map escape_char s))"
    by (induction s) (simp_all add: fully_escaped_step)
  moreover have "unescapeField (concat (map escape_char s)) = s"
    by (induction s) (simp_all add: unescape_step)
  ultimately show ?thesis by (simp add: escapeField_chars)
qed


end
